theory Spec2Isabelle
  imports Complex_Main "HOL-Library.Sublist"
begin

section \<open>Strings of the host language\<close>

text \<open>
  Strings are modelled as \<^typ>\<open>string\<close>.  \<open>toLowerCase\<close> folds the letters
  \<open>A\<close> .. \<open>Z\<close> to \<open>a\<close> .. \<open>z\<close> and leaves every other character as it is
  (the ASCII part of \<open>String.prototype.toLowerCase\<close>).
\<close>

definition lower_char :: "char \<Rightarrow> char" where
  "lower_char c =
     (case map_of (zip ''ABCDEFGHIJKLMNOPQRSTUVWXYZ'' ''abcdefghijklmnopqrstuvwxyz'') c of
        None \<Rightarrow> c
      | Some d \<Rightarrow> d)"

definition toLowerCase :: "string \<Rightarrow> string" where
  "toLowerCase s = map lower_char s"

text \<open>\<open>String.prototype.includes\<close>: does \<open>sub\<close> occur in \<open>s\<close> as a contiguous run?\<close>

fun str_includes :: "string \<Rightarrow> string \<Rightarrow> bool" where
  "str_includes [] sub = (sub = [])"
| "str_includes (x # xs) sub = (prefix sub (x # xs) \<or> str_includes xs sub)"

text \<open>\<open>Array.prototype.join\<close> on an array of strings.\<close>

fun join :: "string \<Rightarrow> string list \<Rightarrow> string" where
  "join sep [] = []"
| "join sep [x] = x"
| "join sep (x # y # ys) = x @ sep @ join sep (y # ys)"

text \<open>\<open>String.prototype.replace\<close> with a string pattern: the first occurrence only.\<close>

fun replace :: "string \<Rightarrow> string \<Rightarrow> string \<Rightarrow> string" where
  "replace [] pat new = (if pat = [] then new else [])"
| "replace (x # xs) pat new =
     (if prefix pat (x # xs) then new @ drop (length pat) (x # xs)
      else x # replace xs pat new)"

section \<open>Data model\<close>

text \<open>
  Modelled from the spec: the declarations \<open>Country\<close>, \<open>Currencies\<close>, \<open>Languages\<close>
  (\<open>models/country.model.ts\<close>) and \<open>FlagAscii\<close> (\<open>models/flag-ascii.model.ts\<close>) are not
  among the sources.  The records have the fields of the specification's data model
  under the names by which \<open>countries.ts\<close> reads them.  The common name is required;
  every other field of a country may be missing from the remote data and is an option,
  \<open>None\<close> standing for \<open>undefined\<close>.  A coordinate is carried by the text that \<open>join\<close>
  renders for it.  A mapping is an association list in iteration order.
\<close>

record currency =
  currency_name :: string
  currency_symbol :: string

record flag_refs =
  png :: "string option"
  svg :: "string option"

record Country =
  common :: string
  capital :: "string list option"
  region :: "string option"
  subregion :: "string option"
  population :: "nat option"
  latlng :: "string list option"
  capitalInfo :: "string list option option"
  timezones :: "string list option"
  tld :: "string list option"
  flag :: "string option"
  flags :: "flag_refs option"
  currencies :: "(string \<times> currency) list option"
  languages :: "(string \<times> string) list option"

record FlagAscii =
  countryName :: string
  flagString :: "string list"

text \<open>
  What the program can raise: a \<open>TypeError\<close> of the runtime (a property read on
  \<open>undefined\<close>, a call of something that is no function), the \<open>SyntaxError\<close> of
  \<open>response.json()\<close>, a rejected \<open>fetch\<close>, \<open>new Error(msg)\<close>, a thrown string, and a
  rejection of the image converter.
\<close>

datatype error =
    TypeError
  | SyntaxError
  | FetchFailed
  | Error string
  | Thrown string
  | ConverterFailed string

section \<open>Name and capital lookup\<close>

text \<open>\<open>Countries.find\<close>, on the \<open>list\<close> field of the object.\<close>

definition find_country :: "Country list \<Rightarrow> string \<Rightarrow> error + Country" where
  "find_country list name =
     (let name = toLowerCase name in
      case List.find (\<lambda>c. toLowerCase (common c) = name) list of
        Some c \<Rightarrow> Inr c
      | None \<Rightarrow>
          (case List.find (\<lambda>c. str_includes (toLowerCase (common c)) name) list of
             Some c \<Rightarrow> Inr c
           | None \<Rightarrow> Inl (Thrown (''Cannot find country named '' @ name))))"

text \<open>
  \<open>Countries.findByCapital\<close>.  The predicate of \<open>list.find\<close> reads \<open>c.capital.map\<close>, which
  raises when \<open>capital\<close> is \<open>undefined\<close>; the search stops at the first country that
  matches or raises.
\<close>

fun findByCapital :: "Country list \<Rightarrow> string \<Rightarrow> error + Country" where
  "findByCapital [] cap = Inl (Thrown (''Could not find the country of capital: '' @ cap))"
| "findByCapital (c # cs) cap =
     (case capital c of
        None \<Rightarrow> Inl TypeError
      | Some caps \<Rightarrow>
          (let capitalsLowercase = map toLowerCase caps in
           if cap \<in> set capitalsLowercase then Inr c else findByCapital cs cap))"

text \<open>\<open>Countries.capitalOf\<close>: an empty argument is reported and nothing is looked up.\<close>

datatype capital_event = LogError string | LogCapitalOf string string

definition capitalOf :: "Country list \<Rightarrow> string \<Rightarrow> error + capital_event" where
  "capitalOf list cap =
     (if cap = [] then Inr (LogError ''Must provide a capital name.'')
      else case findByCapital list cap of
             Inl e \<Rightarrow> Inl e
           | Inr country \<Rightarrow> Inr (LogCapitalOf cap (common country)))"








section \<open>Environment\<close>

definition baseUrl :: string where
  "baseUrl = ''https://restcountries.com/v3.1/''"

definition syncInterval :: nat where
  "syncInterval = 7"

definition flagWidth :: nat where
  "flagWidth = 40"

definition queries :: string where
  "queries = ''all?fields=name,capital,currencies,population,flags,languages,region,subregion,timezones,latlng''"

section \<open>Numbers as text\<close>

text \<open>\<open>JSON.stringify\<close> of a non-negative integer: its decimal digits.\<close>

fun stringify :: "nat \<Rightarrow> string" where
  "stringify n =
     (if n < 10 then [''0123456789'' ! n]
      else stringify (n div 10) @ [''0123456789'' ! (n mod 10)])"

declare stringify.simps [simp del]

fun parse_digits :: "string \<Rightarrow> nat \<Rightarrow> nat option" where
  "parse_digits [] acc = Some acc"
| "parse_digits (c # cs) acc =
     (let n = (of_char c :: nat) in
      if 48 \<le> n \<and> n \<le> 57 then parse_digits cs (10 * acc + (n - 48)) else None)"

text \<open>
  \<open>Number(x)\<close> for what \<open>readTxt\<close> returned.  \<open>None\<close> is \<open>NaN\<close>: the result for
  \<open>undefined\<close> and for a text that is no number.  The empty text is 0.  Only texts of
  decimal digits, the form in which \<open>sync\<close> writes the timestamp, are read as
  numbers here.
\<close>

definition Number :: "string option \<Rightarrow> int option" where
  "Number x =
     (case x of
        None \<Rightarrow> None
      | Some s \<Rightarrow> map_option int (parse_digits s 0))"

text \<open>\<open>!x\<close> for a string or \<open>undefined\<close>.\<close>

definition falsy :: "string option \<Rightarrow> bool" where
  "falsy x = (case x of None \<Rightarrow> True | Some s \<Rightarrow> s = [])"

text \<open>\<open>a || d\<close> and \<open>a ?? d\<close> for a string or \<open>undefined\<close> on the left.\<close>

definition or_else :: "string option \<Rightarrow> string option \<Rightarrow> string option" where
  "or_else a b = (if falsy a then b else a)"

definition or_default :: "string option \<Rightarrow> string \<Rightarrow> string" where
  "or_default a d = (case a of None \<Rightarrow> d | Some s \<Rightarrow> if s = [] then d else s)"

definition nullish_default :: "string option \<Rightarrow> string \<Rightarrow> string" where
  "nullish_default a d = (case a of None \<Rightarrow> d | Some s \<Rightarrow> s)"

section \<open>Cache store\<close>

text \<open>
  What a cache file or the body of a response holds once it is read as JSON: an array
  of country objects, an array of flag-art entries (written and read under the key
  \<open>flags\<close> only), or a value that is no array, given by its text (the error object of
  the remote service, for one).  The casts \<open>as Country[]\<close> and \<open>as FlagAscii[]\<close> check
  nothing, so each of them can reach the fields of the object.
\<close>

datatype payload =
    Countries "Country list"
  | Flags "FlagAscii list"
  | Other string

text \<open>
  Modelled from the spec: the class \<open>Cache\<close> of \<open>util/cache.ts\<close> is not among the
  sources.  It is a key/value store of JSON files and text files; a read of a missing
  key returns the absent signal (\<open>None\<close>), a save replaces the entry, and \<open>exists\<close>
  tells whether the file with that key and suffix is there.
\<close>

record cache =
  jsons :: "string \<rightharpoonup> payload"
  txts :: "string \<rightharpoonup> string"

definition exists :: "cache \<Rightarrow> string \<Rightarrow> string \<Rightarrow> bool" where
  "exists c key ext =
     (if ext = ''.json'' then jsons c key \<noteq> None
      else if ext = ''.txt'' then txts c key \<noteq> None
      else False)"

definition readJson :: "cache \<Rightarrow> string \<Rightarrow> payload option" where
  "readJson c key = jsons c key"

definition readTxt :: "cache \<Rightarrow> string \<Rightarrow> string option" where
  "readTxt c key = txts c key"

definition saveJson :: "cache \<Rightarrow> string \<Rightarrow> payload \<Rightarrow> cache" where
  "saveJson c key v = c\<lparr>jsons := (jsons c)(key \<mapsto> v)\<rparr>"

definition saveTxt :: "cache \<Rightarrow> string \<Rightarrow> string \<Rightarrow> cache" where
  "saveTxt c key v = c\<lparr>txts := (txts c)(key \<mapsto> v)\<rparr>"

section \<open>Freshness\<close>

text \<open>\<open>Countries.shouldSync\<close> of \<open>src/countries.ts\<close>; \<open>now\<close> is what \<open>Date.now()\<close> returned.\<close>

definition shouldSync :: "cache \<Rightarrow> nat \<Rightarrow> bool" where
  "shouldSync c now =
     (let lastSynced = readTxt c ''last-synced'';
          cacheExists = exists c ''countries'' ''.json'';
          week = int syncInterval * 23 * 60 * 60 * 1000;
          updateDue = (case Number lastSynced of
                         None \<Rightarrow> False
                       | Some t \<Rightarrow> int now - t > week)
      in \<not> cacheExists \<or> falsy lastSynced \<or> updateDue)"

text \<open>\<open>Countries.shouldSync\<close> of the first copy in \<open>unnamed/part_000\<close>.\<close>

definition shouldSync_part000 :: "cache \<Rightarrow> nat \<Rightarrow> bool" where
  "shouldSync_part000 c now =
     (let lastSynced = readTxt c ''last-synced'';
          cacheExists = exists c ''countries'' ''.json'';
          week = int syncInterval * 7 * 24 * 60 * 60 * 1000;
          updateDue = (case Number lastSynced of
                         None \<Rightarrow> False
                       | Some t \<Rightarrow> int now - t > week)
      in \<not> cacheExists \<or> falsy lastSynced \<or> updateDue)"

text \<open>
  The staleness policy in the words of the specification: stale when there is no
  timestamp, no cached dataset, or the age exceeds \<open>syncIntervalDays\<close> times 24 hours.
\<close>

definition stale_spec :: "cache \<Rightarrow> nat \<Rightarrow> bool" where
  "stale_spec c now =
     (readTxt c ''last-synced'' = None
      \<or> \<not> exists c ''countries'' ''.json''
      \<or> (case Number (readTxt c ''last-synced'') of
            None \<Rightarrow> False
          | Some t \<Rightarrow> int now - t > int syncInterval * (24 * 60 * 60 * 1000)))"

section \<open>Collaborators and effects\<close>

text \<open>
  The record handed to \<open>logger.logCountry\<close>; \<open>None\<close> is a field whose value is
  \<open>undefined\<close>.
\<close>

record printable =
  p_country :: "string option"
  p_latlng :: "string option"
  p_capital :: "string option"
  p_flag :: "string option"
  p_population :: "string option"
  p_region :: "string option"
  p_subregion :: "string option"
  p_capitalLatLng :: "string option"
  p_timezones :: "string option"
  p_tld :: "string option"
  p_currencies :: "string option"
  p_languages :: "string option"

text \<open>
  The calls a method makes on its collaborators (logger, network, cache, image
  converter), in the order in which it makes them.
\<close>

datatype event =
    Alert string string
  | Fetch string
  | SaveJson string payload
  | SaveTxt string string
  | GetImageStrings string
  | Progress nat nat "string option" string
  | Success string
  | Log "string option"
  | LogErr string
  | LogCountry printable

text \<open>
  The answer of the remote endpoint: \<open>fetch\<close> rejects, or there is a response with its
  \<open>ok\<close> flag, its body as text, and the body read as JSON (\<open>None\<close> when the body is
  no JSON, where \<open>response.json()\<close> raises).
\<close>

record response =
  ok :: bool
  body_text :: string
  body_json :: "payload option"

datatype fetch_result = Rejected | Response response

text \<open>
  What a run takes from outside: the two readings of the clock (in \<open>shouldSync\<close> and
  at the save), the answer to the fetch, the image converter, and the cache directory.
\<close>

record env =
  now_check :: nat
  now_save :: nat
  reply :: fetch_result
  getImageStrings :: "string \<Rightarrow> error + string list"
  cacheDir :: string

record config =
  force :: bool
  flagAscii :: bool

text \<open>The fields of the \<open>Countries\<close> object and the cache it owns.\<close>

record world =
  this_cache :: cache
  this_list :: "payload option"
  this_names :: "string list"
  this_flags :: payload

section \<open>Flag art\<close>

text \<open>
  \<open>Countries.generateFlagImgs\<close> of \<open>src/countries.ts\<close>.  The loop carries \<open>data\<close>,
  \<open>index\<close> and the calls made so far; reading \<open>country.flags["png"].replace\<close> raises when
  \<open>flags\<close> or \<open>png\<close> is \<open>undefined\<close>.
\<close>

fun generateFlagImgs_loop ::
  "(string \<Rightarrow> error + string list) \<Rightarrow> nat \<Rightarrow> string option \<Rightarrow> Country list \<Rightarrow>
   FlagAscii list \<Rightarrow> nat \<Rightarrow> event list \<Rightarrow> (error + FlagAscii list) \<times> event list" where
  "generateFlagImgs_loop conv len title [] data index ev = (Inr data, ev)"
| "generateFlagImgs_loop conv len title (country # rest) data index ev =
     (case flags country of
        None \<Rightarrow> (Inl TypeError, ev)
      | Some f \<Rightarrow>
          (case png f of
             None \<Rightarrow> (Inl TypeError, ev)
           | Some p \<Rightarrow>
               (let flagUrl = replace p ''.png'' ''.jpg'' in
                case conv flagUrl of
                  Inl e \<Rightarrow> (Inl e, ev @ [GetImageStrings flagUrl])
                | Inr lines \<Rightarrow>
                    generateFlagImgs_loop conv len title rest
                      (data @ [\<lparr>countryName = common country, flagString = lines\<rparr>])
                      (index + 1)
                      (ev @ [GetImageStrings flagUrl,
                             Progress (index + 1) len title
                               (''Generating a flag for '' @ common country)]))))"

definition generateFlagImgs ::
  "(string \<Rightarrow> error + string list) \<Rightarrow> Country list \<Rightarrow> string option \<Rightarrow>
   (error + FlagAscii list) \<times> event list" where
  "generateFlagImgs conv countries logTitle =
     generateFlagImgs_loop conv (length countries) logTitle countries [] 0 []"

text \<open>
  \<open>Countries.generateFlagImgs\<close> of the first copy in \<open>unnamed/part_000\<close>:
  \<open>country.flags?.png || country.flags?.svg || "N/A"\<close>, and \<open>continue\<close> on \<open>"N/A"\<close>.
\<close>

fun generateFlagImgs_loop_part000 ::
  "(string \<Rightarrow> error + string list) \<Rightarrow> nat \<Rightarrow> string option \<Rightarrow> Country list \<Rightarrow>
   FlagAscii list \<Rightarrow> nat \<Rightarrow> event list \<Rightarrow> (error + FlagAscii list) \<times> event list" where
  "generateFlagImgs_loop_part000 conv len title [] data index ev = (Inr data, ev)"
| "generateFlagImgs_loop_part000 conv len title (country # rest) data index ev =
     (let flagUrl =
            or_default
              (or_else (case flags country of None \<Rightarrow> None | Some f \<Rightarrow> png f)
                       (case flags country of None \<Rightarrow> None | Some f \<Rightarrow> svg f))
              ''N/A''
      in if flagUrl = ''N/A'' then
           generateFlagImgs_loop_part000 conv len title rest data index ev
         else
           (case conv flagUrl of
              Inl e \<Rightarrow> (Inl e, ev @ [GetImageStrings flagUrl])
            | Inr lines \<Rightarrow>
                generateFlagImgs_loop_part000 conv len title rest
                  (data @ [\<lparr>countryName = common country, flagString = lines\<rparr>])
                  (index + 1)
                  (ev @ [GetImageStrings flagUrl,
                         Progress (index + 1) len title
                           (''Generating a flag for '' @ common country)])))"

definition generateFlagImgs_part000 ::
  "(string \<Rightarrow> error + string list) \<Rightarrow> Country list \<Rightarrow> string option \<Rightarrow>
   (error + FlagAscii list) \<times> event list" where
  "generateFlagImgs_part000 conv countries logTitle =
     generateFlagImgs_loop_part000 conv (length countries) logTitle countries [] 0 []"

section \<open>Synchronisation\<close>

definition logTitle :: string where
  "logTitle = ''Generating ASCII art for each country flag. This may take a minute...''"

definition alert :: "config \<Rightarrow> event" where
  "alert cfg =
     Alert ''Synchronizing countries database...''
       (if force cfg then []
        else CHR 0x0A # ''This will only happen every '' @ stringify syncInterval @ '' days'')"

text \<open>
  The last two statements of \<open>sync\<close>: \<open>this.names = this.list.map(...)\<close> raises unless
  \<open>this.list\<close> is an array of country objects.
\<close>

definition set_names ::
  "world \<Rightarrow> event list \<Rightarrow> (error + Country list) \<times> world \<times> event list" where
  "set_names w ev =
     (case this_list w of
        Some (Countries cs) \<Rightarrow> (Inr cs, w\<lparr>this_names := map common cs\<rparr>, ev)
      | _ \<Rightarrow> (Inl TypeError, w, ev))"

text \<open>
  The statements of \<open>sync\<close> from \<open>this.list = countries\<close> on, which the copies share but
  for the flag-art generator they call.
\<close>

definition persist ::
  "((string \<Rightarrow> error + string list) \<Rightarrow> Country list \<Rightarrow> string option \<Rightarrow>
    (error + FlagAscii list) \<times> event list) \<Rightarrow>
   config \<Rightarrow> env \<Rightarrow> world \<Rightarrow> event list \<Rightarrow> payload \<Rightarrow>
   (error + Country list) \<times> world \<times> event list" where
  "persist gen cfg e w ev countries =
     (let w1 = w\<lparr>this_list := Some countries,
                 this_cache :=
                   saveTxt (saveJson (this_cache w) ''countries'' countries)
                     ''last-synced'' (stringify (now_save e))\<rparr>;
          ev1 = ev @ [SaveJson ''countries'' countries,
                      SaveTxt ''last-synced'' (stringify (now_save e))];
          done = ''Synced successfully: cache saved at '' @ cacheDir e
      in if flagAscii cfg then
           (case countries of
              Countries cs \<Rightarrow>
                (case gen (getImageStrings e) cs (Some logTitle) of
                   (Inl err, evs) \<Rightarrow> (Inl err, w1, ev1 @ evs)
                 | (Inr flagStrings, evs) \<Rightarrow>
                     set_names
                       (w1\<lparr>this_flags := Flags flagStrings,
                           this_cache := saveJson (this_cache w1) ''flags'' (Flags flagStrings)\<rparr>)
                       (ev1 @ evs @ [SaveJson ''flags'' (Flags flagStrings), Success done]))
            | _ \<Rightarrow> (Inl TypeError, w1, ev1))
         else set_names w1 (ev1 @ [Success done]))"

text \<open>The branch of \<open>sync\<close> that serves the cache.\<close>

definition load ::
  "world \<Rightarrow> (error + Country list) \<times> world \<times> event list" where
  "load w =
     set_names
       (w\<lparr>this_list := readJson (this_cache w) ''countries'',
          this_flags := (case readJson (this_cache w) ''flags'' of
                           None \<Rightarrow> Flags []
                         | Some fl \<Rightarrow> fl)\<rparr>)
       []"

text \<open>\<open>Countries.sync\<close> of \<open>src/countries.ts\<close>.\<close>

definition sync ::
  "config \<Rightarrow> env \<Rightarrow> world \<Rightarrow> (error + Country list) \<times> world \<times> event list" where
  "sync cfg e w =
     (if shouldSync (this_cache w) (now_check e) \<or> force cfg then
        (let ev = [alert cfg, Fetch (baseUrl @ queries)] in
         case reply e of
           Rejected \<Rightarrow> (Inl FetchFailed, w, ev)
         | Response r \<Rightarrow>
             (case body_json r of
                None \<Rightarrow> (Inl SyntaxError, w, ev)
              | Some countries \<Rightarrow> persist generateFlagImgs cfg e w ev countries))
      else load w)"

text \<open>
  \<open>Countries.sync\<close> of the first copy in \<open>unnamed/part_000\<close>: \<open>response.ok\<close> is tested
  before the body is read as JSON.
\<close>

definition sync_part000 ::
  "config \<Rightarrow> env \<Rightarrow> world \<Rightarrow> (error + Country list) \<times> world \<times> event list" where
  "sync_part000 cfg e w =
     (if shouldSync_part000 (this_cache w) (now_check e) \<or> force cfg then
        (let ev = [alert cfg, Fetch (baseUrl @ queries)] in
         case reply e of
           Rejected \<Rightarrow> (Inl FetchFailed, w, ev)
         | Response r \<Rightarrow>
             if \<not> ok r then (Inl (Error (''API Error: '' @ body_text r)), w, ev)
             else
               (case body_json r of
                  None \<Rightarrow> (Inl SyntaxError, w, ev)
                | Some countries \<Rightarrow> persist generateFlagImgs_part000 cfg e w ev countries))
      else load w)"

section \<open>Display\<close>

text \<open>
  \<open>extractCurrencies\<close> and \<open>extractLanguages\<close>; a \<open>for ... in\<close> over \<open>undefined\<close> runs
  no iteration.
\<close>

definition extractCurrencies :: "(string \<times> currency) list option \<Rightarrow> string" where
  "extractCurrencies cur =
     join '' | ''
       (map (\<lambda>(currencyAbbr, currency).
               currency_name currency @ '' ['' @ currency_symbol currency @ '']('' @
               currencyAbbr @ '')'')
          (case cur of None \<Rightarrow> [] | Some m \<Rightarrow> m))"

definition extractCurrencies_part000 :: "(string \<times> currency) list option \<Rightarrow> string" where
  "extractCurrencies_part000 cur =
     join '' | ''
       (map (\<lambda>(currencyAbbr, currency). currency_name currency @ '' ('' @ currencyAbbr @ '')'')
          (case cur of None \<Rightarrow> [] | Some m \<Rightarrow> m))"

definition extractLanguages :: "(string \<times> string) list option \<Rightarrow> string" where
  "extractLanguages lang = join '' | '' (map snd (case lang of None \<Rightarrow> [] | Some m \<Rightarrow> m))"

text \<open>
  \<open>Countries.print\<close> of \<open>src/countries.ts\<close>.  \<open>toLocaleString\<close> is the number formatting
  of the host and \<open>flagUrls\<close> the table imported from \<open>flags.json\<close>; both are parameters.
  The properties of the object literal are evaluated in the order written, and
  \<open>latlng.join\<close>, \<open>capital[0]\<close>, \<open>population.toLocaleString\<close> and \<open>timezones.join\<close> raise
  on \<open>undefined\<close>.
\<close>

definition print ::
  "(nat \<Rightarrow> string) \<Rightarrow> (string \<rightharpoonup> string) \<Rightarrow> Country list \<Rightarrow> FlagAscii list \<Rightarrow> string \<Rightarrow>
   (error + unit) \<times> event list" where
  "print toLocaleString flagUrls list fls name =
     (case find_country list name of
        Inl e \<Rightarrow> (Inl e, [])
      | Inr country \<Rightarrow>
          (let curs = extractCurrencies (currencies country);
               langs = extractLanguages (languages country);
               ev = (case List.find (\<lambda>i. countryName i = common country) fls of
                       None \<Rightarrow> []
                     | Some fa \<Rightarrow> [Log (case flagString fa of [] \<Rightarrow> None | l # _ \<Rightarrow> Some l)]);
               tlds = (case tld country of None \<Rightarrow> ''N/A'' | Some t \<Rightarrow> join '' | '' t)
           in case latlng country of
                None \<Rightarrow> (Inl TypeError, ev)
              | Some ll \<Rightarrow>
           (case capital country of
                None \<Rightarrow> (Inl TypeError, ev)
              | Some caps \<Rightarrow>
           (case population country of
                None \<Rightarrow> (Inl TypeError, ev)
              | Some pop \<Rightarrow>
           (case timezones country of
                None \<Rightarrow> (Inl TypeError, ev)
              | Some tz \<Rightarrow>
                  (Inr (),
                   ev @
                   [LogCountry
                      \<lparr>p_country = Some (common country),
                       p_latlng = Some (join ''/'' ll),
                       p_capital = (case caps of [] \<Rightarrow> None | x # _ \<Rightarrow> Some x),
                       p_flag = flag country,
                       p_population = Some (toLocaleString pop),
                       p_region = region country,
                       p_subregion = subregion country,
                       p_capitalLatLng =
                         Some (case capitalInfo country of
                                 Some (Some cl) \<Rightarrow> join ''/'' cl
                               | _ \<Rightarrow> ''N/A''),
                       p_timezones = Some (join '' | '' tz),
                       p_tld = Some tlds,
                       p_currencies = Some curs,
                       p_languages = Some langs\<rparr>,
                    Log (Some (''Flag: '' @
                       or_default (flagUrls (toLowerCase (common country)))
                         ''https://flagcdn.com/unknown.svg''))]))))))"

text \<open>
  \<open>Countries.print\<close> of the first copy in \<open>unnamed/part_000\<close>: every optional field is
  read with \<open>?.\<close> and defaulted with \<open>?? "N/A"\<close>.
\<close>

definition print_part000 ::
  "(nat \<Rightarrow> string) \<Rightarrow> Country list \<Rightarrow> FlagAscii list \<Rightarrow> string \<Rightarrow>
   (error + unit) \<times> event list" where
  "print_part000 toLocaleString list fls name =
     (case find_country list name of
        Inl e \<Rightarrow> (Inl e, [])
      | Inr country \<Rightarrow>
          (let curs = extractCurrencies_part000 (currencies country);
               langs = extractLanguages (languages country);
               found = List.find (\<lambda>i. countryName i = common country) fls;
               separator = replicate flagWidth CHR ''-''
           in (Inr (),
               [Log (Some (CHR 0x0A # separator))] @
               (case found of
                  Some fa \<Rightarrow> [Log (Some (CHR 0x0A # join [CHR 0x0A] (flagString fa)))]
                | None \<Rightarrow> [LogErr (''Flag not found for '' @ common country),
                            Log (Some ''Flag: Not Available'')]) @
               [Log (Some separator),
                LogCountry
                  \<lparr>p_country = Some (common country),
                   p_latlng = Some (nullish_default (map_option (join ''/'') (latlng country)) ''N/A''),
                   p_capital =
                     Some (nullish_default
                             (case capital country of
                                None \<Rightarrow> None
                              | Some caps \<Rightarrow> (case caps of [] \<Rightarrow> None | x # _ \<Rightarrow> Some x))
                             ''N/A''),
                   p_flag =
                     Some (''Flag: '' @
                           (case found of Some fa \<Rightarrow> ''Displayed'' | None \<Rightarrow> ''Not Available'')),
                   p_population =
                     Some (nullish_default (map_option toLocaleString (population country)) ''N/A''),
                   p_region = Some (nullish_default (region country) ''N/A''),
                   p_subregion = Some (nullish_default (subregion country) ''N/A''),
                   p_capitalLatLng =
                     Some (nullish_default
                             (case capitalInfo country of
                                None \<Rightarrow> None
                              | Some ci \<Rightarrow> map_option (join ''/'') ci)
                             ''N/A''),
                   p_timezones =
                     Some (nullish_default (map_option (join '' | '') (timezones country)) ''N/A''),
                   p_tld = Some (nullish_default (map_option (join '' | '') (tld country)) ''N/A''),
                   p_currencies = Some curs,
                   p_languages = Some langs\<rparr>])))"

text \<open>A first match in dataset order: the element at the least index that satisfies \<open>P\<close>.\<close>

definition first_match :: "('a \<Rightarrow> bool) \<Rightarrow> 'a list \<Rightarrow> 'a \<Rightarrow> bool" where
  "first_match P xs x \<longleftrightarrow> (\<exists>i < length xs. xs ! i = x \<and> P x \<and> (\<forall>j < i. \<not> P (xs ! j)))"

section \<open>Example data\<close>

text \<open>A country object that has a name and nothing else, and the data of the examples.\<close>

definition bare :: "string \<Rightarrow> Country" where
  "bare n = \<lparr>common = n, capital = None, region = None, subregion = None, population = None,
     latlng = None, capitalInfo = None, timezones = None, tld = None, flag = None, flags = None,
     currencies = None, languages = None\<rparr>"

definition france :: Country where
  "france = (bare ''France'')\<lparr>capital := Some [''Paris''], region := Some ''Europe''\<rparr>"

definition synced_cache :: "string \<Rightarrow> cache" where
  "synced_cache t = \<lparr>jsons = [''countries'' \<mapsto> Countries [france]], txts = [''last-synced'' \<mapsto> t]\<rparr>"


definition sample :: "Country list" where
  "sample = [bare ''Niger'', bare ''Nigeria'', france]"

text \<open>
  The calls of the flag-art loop, and the writes of the base dataset and of its
  timestamp.
\<close>

definition flag_art_event :: "event \<Rightarrow> bool" where
  "flag_art_event x = (case x of GetImageStrings u \<Rightarrow> True | Progress i n t d \<Rightarrow> True | _ \<Rightarrow> False)"

definition writes_base :: "event \<Rightarrow> bool" where
  "writes_base x =
     (case x of SaveJson k v \<Rightarrow> k = ''countries'' | SaveTxt k v \<Rightarrow> k = ''last-synced'' | _ \<Rightarrow> False)"

text \<open>
  A world with an empty cache, an environment around a given reply and image
  converter, replies of the remote service, converters, and countries with and without
  flag references.
\<close>

definition empty_world :: world where
  "empty_world =
     \<lparr>this_cache = \<lparr>jsons = Map.empty, txts = Map.empty\<rparr>,
      this_list = Some (Countries []), this_names = [], this_flags = Flags []\<rparr>"

definition sample_env :: "fetch_result \<Rightarrow> (string \<Rightarrow> error + string list) \<Rightarrow> env" where
  "sample_env rep conv =
     \<lparr>now_check = 1700000000000, now_save = 1700000000001, reply = rep,
      getImageStrings = conv, cacheDir = ''/home/user/.cache/countryfetch''\<rparr>"

definition failing_converter :: "string \<Rightarrow> error + string list" where
  "failing_converter url = Inl (ConverterFailed url)"

definition with_png :: Country where
  "with_png = france\<lparr>flags := Some \<lparr>png = Some ''https://flagcdn.com/w320/fr.png'', svg = None\<rparr>\<rparr>"

definition error_reply :: fetch_result where
  "error_reply = Response \<lparr>ok = False, body_text = ''{}'', body_json = Some (Other ''{}'')\<rparr>"

definition good_reply :: fetch_result where
  "good_reply = Response \<lparr>ok = True, body_text = ''[...]'', body_json = Some (Countries [with_png])\<rparr>"

definition no_population :: Country where
  "no_population = france\<lparr>latlng := Some [''46'', ''2''], timezones := Some [''UTC+01:00'']\<rparr>"

definition svg_only :: Country where
  "svg_only = france\<lparr>flags := Some \<lparr>png = None, svg = Some ''https://flagcdn.com/fr.svg''\<rparr>\<rparr>"

definition echo_converter :: "string \<Rightarrow> error + string list" where
  "echo_converter url = Inr [url]"

text \<open>The record of the first \<open>logCountry\<close> call among the calls made.\<close>

fun logged :: "event list \<Rightarrow> printable option" where
  "logged [] = None"
| "logged (LogCountry r # ev) = Some r"
| "logged (x # ev) = logged ev"

section \<open>Properties of the string functions\<close>

lemma lower_char_idem: "lower_char (lower_char c) = lower_char c"
  by (simp add: lower_char_def)

lemma toLowerCase_idem: "toLowerCase (toLowerCase s) = toLowerCase s"
  by (simp add: toLowerCase_def lower_char_idem)

lemma includes_sublist: "str_includes s sub \<longleftrightarrow> sublist sub s"
  by (induction s) (auto simp: sublist_Cons_right)

lemma includes_Nil: "str_includes s []"
  by (cases s) simp_all

lemma find_first_match: "List.find P xs = Some x \<longleftrightarrow> first_match P xs x"
  by (auto simp: find_Some_iff first_match_def)

lemmas eval_defs = toLowerCase_def lower_char_def bare_def france_def

lemma str_includes_refl: "str_includes s s"
  by (cases s) simp_all

section \<open>Lookup by name\<close>

text \<open>
  C5: \<open>find\<close> lowercases the query.  If some country's lowercased common name equals
  it, the first such country in dataset order is returned; if none does, the first
  country whose lowercased common name contains it; if none does either, the string
  with the message is thrown, and only then.  For a country \<open>c\<close> of the dataset, a query
  that is the name of \<open>c\<close> in any letter case returns the first country of the dataset
  whose name is that of \<open>c\<close> up to letter case.
\<close>

theorem find_country_passes:
  "(\<forall>c. first_match (\<lambda>d. toLowerCase (common d) = toLowerCase q) list c
        \<longrightarrow> find_country list q = Inr c)
   \<and> (\<forall>c. (\<forall>d \<in> set list. toLowerCase (common d) \<noteq> toLowerCase q)
          \<and> first_match (\<lambda>d. str_includes (toLowerCase (common d)) (toLowerCase q)) list c
        \<longrightarrow> find_country list q = Inr c)
   \<and> ((\<forall>d \<in> set list. toLowerCase (common d) \<noteq> toLowerCase q
                       \<and> \<not> str_includes (toLowerCase (common d)) (toLowerCase q))
        \<longleftrightarrow> find_country list q = Inl (Thrown (''Cannot find country named '' @ toLowerCase q)))
   \<and> (\<forall>c \<in> set list. \<forall>q'. toLowerCase q' = toLowerCase (common c) \<longrightarrow>
         (\<exists>d. find_country list q' = Inr d
              \<and> first_match (\<lambda>d. toLowerCase (common d) = toLowerCase (common c)) list d))"
proof (intro conjI allI impI ballI)
  fix c assume "first_match (\<lambda>d. toLowerCase (common d) = toLowerCase q) list c"
  then have "List.find (\<lambda>d. toLowerCase (common d) = toLowerCase q) list = Some c"
    by (simp add: find_first_match)
  then show "find_country list q = Inr c"
    by (simp add: find_country_def)
next
  fix c
  assume a: "(\<forall>d \<in> set list. toLowerCase (common d) \<noteq> toLowerCase q)
          \<and> first_match (\<lambda>d. str_includes (toLowerCase (common d)) (toLowerCase q)) list c"
  then have 1: "List.find (\<lambda>d. toLowerCase (common d) = toLowerCase q) list = None"
    by (simp add: find_None_iff)
  from a have 2: "List.find (\<lambda>d. str_includes (toLowerCase (common d)) (toLowerCase q)) list = Some c"
    by (simp add: find_first_match)
  show "find_country list q = Inr c"
    by (simp add: find_country_def 1 2)
next
  let ?msg = "Thrown (''Cannot find country named '' @ toLowerCase q)"
  show "(\<forall>d \<in> set list. toLowerCase (common d) \<noteq> toLowerCase q
                       \<and> \<not> str_includes (toLowerCase (common d)) (toLowerCase q))
        \<longleftrightarrow> find_country list q = Inl ?msg"
  proof
    assume a: "\<forall>d \<in> set list. toLowerCase (common d) \<noteq> toLowerCase q
                       \<and> \<not> str_includes (toLowerCase (common d)) (toLowerCase q)"
    then have 1: "List.find (\<lambda>d. toLowerCase (common d) = toLowerCase q) list = None"
      by (simp add: find_None_iff)
    from a have 2: "List.find (\<lambda>d. str_includes (toLowerCase (common d)) (toLowerCase q)) list = None"
      by (simp add: find_None_iff)
    show "find_country list q = Inl ?msg"
      by (simp add: find_country_def 1 2)
  next
    assume f: "find_country list q = Inl ?msg"
    then have 2: "List.find (\<lambda>d. str_includes (toLowerCase (common d)) (toLowerCase q)) list = None"
      by (simp add: find_country_def Let_def split: option.splits)
    then have n: "\<forall>d \<in> set list. \<not> str_includes (toLowerCase (common d)) (toLowerCase q)"
      by (simp add: find_None_iff)
    show "\<forall>d \<in> set list. toLowerCase (common d) \<noteq> toLowerCase q
                       \<and> \<not> str_includes (toLowerCase (common d)) (toLowerCase q)"
    proof
      fix d assume d: "d \<in> set list"
      with n have i: "\<not> str_includes (toLowerCase (common d)) (toLowerCase q)" by blast
      then have "toLowerCase (common d) \<noteq> toLowerCase q"
        using str_includes_refl [of "toLowerCase q"] by auto
      with i show "toLowerCase (common d) \<noteq> toLowerCase q
                       \<and> \<not> str_includes (toLowerCase (common d)) (toLowerCase q)" by simp
    qed
  qed
next
  fix c q' assume c: "c \<in> set list" and q: "toLowerCase q' = toLowerCase (common c)"
  from c have "List.find (\<lambda>d. toLowerCase (common d) = toLowerCase (common c)) list \<noteq> None"
    by (auto simp: find_None_iff)
  then obtain d where d: "List.find (\<lambda>d. toLowerCase (common d) = toLowerCase (common c)) list = Some d"
    by blast
  then have "find_country list q' = Inr d"
    by (simp add: find_country_def q)
  with d show "\<exists>d. find_country list q' = Inr d
              \<and> first_match (\<lambda>d. toLowerCase (common d) = toLowerCase (common c)) list d"
    by (simp add: find_first_match)
qed

theorem find_country_passes_witness:
  "first_match (\<lambda>d. toLowerCase (common d) = toLowerCase ''NIGERIA'') sample (bare ''Nigeria'')
   \<and> find_country sample ''NIGERIA'' = Inr (bare ''Nigeria'')
   \<and> first_match (\<lambda>d. str_includes (toLowerCase (common d)) (toLowerCase ''Ger'')) sample (bare ''Niger'')
   \<and> find_country sample ''Ger'' = Inr (bare ''Niger'')
   \<and> find_country sample ''Atlantis'' = Inl (Thrown ''Cannot find country named atlantis'')
   \<and> france \<in> set sample
   \<and> find_country sample ''fRANCE'' = Inr france"
proof -
  have h1: "first_match (\<lambda>d. toLowerCase (common d) = toLowerCase ''NIGERIA'') sample (bare ''Nigeria'')"
    by (simp add: find_first_match [symmetric] sample_def eval_defs)
  have h2: "(\<forall>d \<in> set sample. toLowerCase (common d) \<noteq> toLowerCase ''Ger'')
     \<and> first_match (\<lambda>d. str_includes (toLowerCase (common d)) (toLowerCase ''Ger'')) sample (bare ''Niger'')"
    by (simp add: find_first_match [symmetric] sample_def eval_defs)
  have h3: "\<forall>d \<in> set sample. toLowerCase (common d) \<noteq> toLowerCase ''Atlantis''
                       \<and> \<not> str_includes (toLowerCase (common d)) (toLowerCase ''Atlantis'')"
    by (simp add: sample_def eval_defs)
  have h4: "france \<in> set sample" by (simp add: sample_def)
  have h5: "toLowerCase ''fRANCE'' = toLowerCase (common france)"
    by (simp add: eval_defs)
  have h6: "toLowerCase ''Atlantis'' = ''atlantis''"
    by (simp add: eval_defs)
  note t = find_country_passes [of "''NIGERIA''" sample]
    find_country_passes [of "''Ger''" sample]
    find_country_passes [of "''Atlantis''" sample]
    find_country_passes [of _ sample]
  from t(4) h4 h5 obtain d where d: "find_country sample ''fRANCE'' = Inr d"
      "first_match (\<lambda>d. toLowerCase (common d) = toLowerCase (common france)) sample d"
    by blast
  from d(2) have "d = france"
    by (simp add: find_first_match [symmetric] sample_def eval_defs)
  with d(1) have c4: "find_country sample ''fRANCE'' = Inr france" by simp
  from t(1) h1 have c1: "find_country sample ''NIGERIA'' = Inr (bare ''Nigeria'')" by blast
  from t(2) h2 have c2: "find_country sample ''Ger'' = Inr (bare ''Niger'')" by blast
  from t(3) h3 h6 have c3: "find_country sample ''Atlantis'' = Inl (Thrown ''Cannot find country named atlantis'')"
    by simp
  from h1 h2 h4 c1 c2 c3 c4 show ?thesis by simp
qed

text \<open>
  The empty query on a dataset in which a later country has the empty name: the exact
  pass returns that country, not the first one.
\<close>

theorem find_country_empty_query_counterexample:
  "find_country [bare ''France'', bare ''''] '''' = Inr (bare '''')
   \<and> bare '''' \<noteq> hd [bare ''France'', bare '''']"
  by (simp add: find_country_def eval_defs)

text \<open>
  C10, amended: the empty query fails exactly on the empty dataset.  On a dataset with
  no empty common name it returns the first country; where some country has the empty
  common name, it returns the first of those.
\<close>

theorem find_country_empty_query:
  "(list = [] \<longleftrightarrow> find_country list [] = Inl (Thrown ''Cannot find country named ''))
   \<and> (list \<noteq> [] \<and> (\<forall>d \<in> set list. common d \<noteq> []) \<longrightarrow> find_country list [] = Inr (hd list))
   \<and> (\<forall>c. first_match (\<lambda>d. common d = []) list c \<longrightarrow> find_country list [] = Inr c)"
proof (intro conjI allI impI)
  show "list = [] \<longleftrightarrow> find_country list [] = Inl (Thrown ''Cannot find country named '')"
  proof (cases list)
    case Nil
    then show ?thesis by (simp add: find_country_def toLowerCase_def)
  next
    case (Cons c cs)
    have "List.find (\<lambda>d. str_includes (toLowerCase (common d)) []) (c # cs) = Some c"
      by (simp add: includes_Nil)
    then have "\<exists>x. find_country (c # cs) [] = Inr x"
      by (simp add: find_country_def toLowerCase_def split: option.splits)
    with Cons show ?thesis by auto
  qed
next
  assume a: "list \<noteq> [] \<and> (\<forall>d \<in> set list. common d \<noteq> [])"
  then obtain c cs where l: "list = c # cs" by (cases list) auto
  from a have 1: "List.find (\<lambda>d. toLowerCase (common d) = []) list = None"
    by (simp add: find_None_iff toLowerCase_def)
  have 2: "List.find (\<lambda>d. str_includes (toLowerCase (common d)) []) list = Some (hd list)"
    by (simp add: l includes_Nil)
  have 3: "toLowerCase [] = []" by (simp add: toLowerCase_def)
  show "find_country list [] = Inr (hd list)"
    by (simp add: find_country_def 1 2 3)
next
  fix c assume "first_match (\<lambda>d. common d = []) list c"
  then have "List.find (\<lambda>d. common d = []) list = Some c"
    by (simp add: find_first_match)
  then show "find_country list [] = Inr c"
    by (simp add: find_country_def toLowerCase_def)
qed

theorem find_country_empty_query_witness:
  "sample \<noteq> []
   \<and> find_country sample [] = Inr (bare ''Niger'')
   \<and> first_match (\<lambda>d. common d = []) [bare ''France'', bare ''''] (bare '''')
   \<and> find_country [bare ''France'', bare ''''] [] = Inr (bare '''')"
proof -
  have h1: "sample \<noteq> [] \<and> (\<forall>d \<in> set sample. common d \<noteq> [])"
    by (simp add: sample_def eval_defs)
  have h2: "first_match (\<lambda>d. common d = []) [bare ''France'', bare ''''] (bare '''')"
    by (simp add: find_first_match [symmetric] eval_defs)
  have h3: "hd sample = bare ''Niger''" by (simp add: sample_def)
  from find_country_empty_query [of sample] h1 h3
  have c1: "find_country sample [] = Inr (bare ''Niger'')" by simp
  from find_country_empty_query [of "[bare ''France'', bare '''']"] h2
  have c2: "find_country [bare ''France'', bare ''''] [] = Inr (bare '''')" by blast
  from h1 h2 c1 c2 show ?thesis by simp
qed

section \<open>Lookup by capital\<close>

text \<open>
  C6: \<open>findByCapital\<close> lowercases the capital entries and compares them with the query
  as it was given.  Evaluated on the dataset of one country with the capital Paris:
  the query \<open>Paris\<close> is not found, also through \<open>capitalOf\<close>; the query \<open>paris\<close> is.  A
  country without a capital list ahead of the match raises \<open>TypeError\<close>.
\<close>

theorem findByCapital_query_not_lowercased:
  "findByCapital [france] ''Paris'' = Inl (Thrown ''Could not find the country of capital: Paris'')
   \<and> capitalOf [france] ''Paris'' = Inl (Thrown ''Could not find the country of capital: Paris'')
   \<and> findByCapital [france] ''paris'' = Inr france
   \<and> findByCapital [bare ''Antarctica'', france] ''paris'' = Inl TypeError"
  by (simp add: capitalOf_def eval_defs)

theorem findByCapital_query_not_lowercased_witness:
  "findByCapital [france] ''Paris'' = Inl (Thrown ''Could not find the country of capital: Paris'')"
  using findByCapital_query_not_lowercased by (rule conjunct1)

section \<open>Freshness of the cache\<close>

lemma shouldSync_iff:
  "shouldSync c now \<longleftrightarrow>
     \<not> exists c ''countries'' ''.json'' \<or> falsy (readTxt c ''last-synced'')
     \<or> (\<exists>t. Number (readTxt c ''last-synced'') = Some t \<and> int now - t > 579600000)"
  by (auto simp: shouldSync_def Let_def syncInterval_def split: option.splits)

lemma shouldSync_part000_iff:
  "shouldSync_part000 c now \<longleftrightarrow>
     \<not> exists c ''countries'' ''.json'' \<or> falsy (readTxt c ''last-synced'')
     \<or> (\<exists>t. Number (readTxt c ''last-synced'') = Some t \<and> int now - t > 4233600000)"
  by (auto simp: shouldSync_part000_def Let_def syncInterval_def split: option.splits)

lemma stale_spec_iff:
  "stale_spec c now \<longleftrightarrow>
     \<not> exists c ''countries'' ''.json'' \<or> readTxt c ''last-synced'' = None
     \<or> (\<exists>t. Number (readTxt c ''last-synced'') = Some t \<and> int now - t > 604800000)"
  by (auto simp: stale_spec_def syncInterval_def split: option.splits)

text \<open>
  C1: with the dataset cached and a timestamp 600 000 000 ms old (less than 7 days),
  \<open>shouldSync\<close> of \<open>src/countries.ts\<close> answers stale where the policy of the
  specification answers fresh; with a timestamp 8 days old, \<open>shouldSync\<close> of the copy
  in \<open>unnamed/part_000\<close> answers fresh where the policy answers stale.
\<close>

theorem shouldSync_week_constant:
  "shouldSync (synced_cache ''1700000000000'') 1700600000000
   \<and> \<not> stale_spec (synced_cache ''1700000000000'') 1700600000000
   \<and> \<not> shouldSync_part000 (synced_cache ''1700000000000'') 1700691200000
   \<and> stale_spec (synced_cache ''1700000000000'') 1700691200000"
  by (simp add: shouldSync_iff shouldSync_part000_iff stale_spec_iff synced_cache_def
        exists_def readTxt_def falsy_def Number_def)

theorem shouldSync_week_constant_witness:
  "shouldSync (synced_cache ''1700000000000'') 1700600000000"
  using shouldSync_week_constant by (rule conjunct1)

section \<open>Random name\<close>












section \<open>Synchronisation: what is written, and when\<close>

lemma set_names_keeps:
  "snd (snd (set_names w ev)) = ev" "this_cache (fst (snd (set_names w ev))) = this_cache w"
  by (simp_all add: set_names_def split: option.splits payload.splits)

lemma set_names_result:
  "this_list w = this_list w' \<Longrightarrow> fst (set_names w ev) = fst (set_names w' ev)"
  by (simp add: set_names_def split: option.splits payload.splits)

lemma loop_events:
  "generateFlagImgs_loop conv len title cs data index ev = (res, evs)
   \<Longrightarrow> \<exists>new. evs = ev @ new \<and> (\<forall>x \<in> set new. flag_art_event x)"
proof (induction cs arbitrary: data index ev)
  case Nil
  then show ?case by simp
next
  case (Cons c cs)
  show ?case
  proof (cases "flags c")
    case None
    with Cons.prems show ?thesis by simp
  next
    case (Some f)
    show ?thesis
    proof (cases "png f")
      case None
      with Some Cons.prems show ?thesis by simp
    next
      case (Some p)
      note p = this
      show ?thesis
      proof (cases "conv (replace p ''.png'' ''.jpg'')")
        case (Inl err)
        with \<open>flags c = Some f\<close> p Cons.prems show ?thesis
          by (auto simp: flag_art_event_def)
      next
        case (Inr lines)
        let ?g = "GetImageStrings (replace p ''.png'' ''.jpg'')"
        let ?p = "Progress (index + 1) len title (''Generating a flag for '' @ common c)"
        from Inr \<open>flags c = Some f\<close> p Cons.prems
        have "generateFlagImgs_loop conv len title cs
                (data @ [\<lparr>countryName = common c, flagString = lines\<rparr>]) (index + 1)
                (ev @ [?g, ?p]) = (res, evs)"
          by simp
        from Cons.IH [OF this] obtain new
          where new: "evs = (ev @ [?g, ?p]) @ new" "\<forall>x \<in> set new. flag_art_event x"
          by blast
        have "evs = ev @ ([?g, ?p] @ new)" using new(1) by simp
        moreover have "\<forall>x \<in> set ([?g, ?p] @ new). flag_art_event x"
          using new(2) by (simp add: flag_art_event_def)
        ultimately show ?thesis by blast
      qed
    qed
  qed
qed

lemma generateFlagImgs_events:
  "generateFlagImgs conv cs title = (res, evs) \<Longrightarrow> \<forall>x \<in> set evs. flag_art_event x"
  using loop_events [of conv "length cs" title cs "[]" 0 "[]" res evs]
  by (auto simp: generateFlagImgs_def)

lemma flag_art_not_base: "flag_art_event x \<Longrightarrow> \<not> writes_base x"
  by (cases x) (simp_all add: flag_art_event_def writes_base_def)

lemma persist_events:
  assumes gen: "\<And>conv cs t res evs. gen conv cs t = (res, evs) \<Longrightarrow> \<forall>x \<in> set evs. flag_art_event x"
  shows "\<exists>post. snd (snd (persist gen cfg e w ev p)) =
           ev @ [SaveJson ''countries'' p, SaveTxt ''last-synced'' (stringify (now_save e))] @ post
         \<and> (\<forall>x \<in> set post. \<not> writes_base x)"
proof (cases "flagAscii cfg")
  case False
  then show ?thesis
    by (simp add: persist_def Let_def set_names_keeps writes_base_def)
next
  case True
  show ?thesis
  proof (cases p)
    case (Countries cs)
    obtain res evs where g: "gen (getImageStrings e) cs (Some logTitle) = (res, evs)"
      by (cases "gen (getImageStrings e) cs (Some logTitle)")
    from gen [OF g] have nb: "\<forall>x \<in> set evs. \<not> writes_base x"
      by (blast dest: flag_art_not_base)
    show ?thesis
    proof (cases res)
      case (Inl err)
      with True Countries g nb show ?thesis
        by (simp add: persist_def Let_def)
    next
      case (Inr fl)
      with True Countries g nb show ?thesis
        by (simp add: persist_def Let_def set_names_keeps writes_base_def)
    qed
  next
    case (Flags fl)
    with True show ?thesis by (simp add: persist_def Let_def)
  next
    case (Other t)
    with True show ?thesis by (simp add: persist_def Let_def)
  qed
qed

lemma persist_events_sync:
  "\<exists>post. snd (snd (persist generateFlagImgs cfg e w ev p)) =
           ev @ [SaveJson ''countries'' p, SaveTxt ''last-synced'' (stringify (now_save e))] @ post
         \<and> (\<forall>x \<in> set post. \<not> writes_base x)"
  by (rule persist_events) (rule generateFlagImgs_events)

lemma persist_cache:
  "jsons (this_cache (fst (snd (persist gen cfg e w ev p)))) ''countries'' = Some p
   \<and> txts (this_cache (fst (snd (persist gen cfg e w ev p)))) ''last-synced''
       = Some (stringify (now_save e))"
  by (simp add: persist_def Let_def set_names_keeps saveJson_def saveTxt_def
        split: payload.splits prod.splits sum.splits)

lemma persist_same:
  "fst (persist gen cfg e w ev p) = fst (persist gen cfg e w' ev p)
   \<and> snd (snd (persist gen cfg e w ev p)) = snd (snd (persist gen cfg e w' ev p))"
  by (simp add: persist_def Let_def set_names_keeps set_names_def
        split: payload.splits prod.splits sum.splits)

lemmas world_defs = empty_world_def sample_env_def error_reply_def good_reply_def
  failing_converter_def echo_converter_def with_png_def france_def bare_def

lemma stringify_now: "stringify 1700000000001 = ''1700000000001''"
  by (simp add: stringify.simps)

text \<open>
  C2: with \<open>force\<close> set, \<open>sync\<close> calls \<open>fetch\<close> whatever the cache holds; when the reply
  has a body that reads as JSON, that body is what the cache holds under \<open>countries\<close>
  afterwards, with the time of the save under \<open>last-synced\<close>; and the result and the
  calls made are the same for every state of the object and of its cache.
\<close>

theorem sync_force_bypasses_freshness:
  assumes "force cfg"
  shows "Fetch (baseUrl @ queries) \<in> set (snd (snd (sync cfg e w)))
     \<and> (\<forall>r p. reply e = Response r \<and> body_json r = Some p \<longrightarrow>
           jsons (this_cache (fst (snd (sync cfg e w)))) ''countries'' = Some p
           \<and> txts (this_cache (fst (snd (sync cfg e w)))) ''last-synced''
               = Some (stringify (now_save e)))
     \<and> (\<forall>w'. fst (sync cfg e w') = fst (sync cfg e w)
             \<and> snd (snd (sync cfg e w')) = snd (snd (sync cfg e w)))"
proof -
  have fetched: "Fetch (baseUrl @ queries) \<in> set (snd (snd (sync cfg e w)))"
  proof (cases "reply e")
    case Rejected
    with assms show ?thesis by (simp add: sync_def)
  next
    case (Response r)
    show ?thesis
    proof (cases "body_json r")
      case None
      with Response assms show ?thesis by (simp add: sync_def)
    next
      case (Some p)
      with Response assms
      have s: "sync cfg e w = persist generateFlagImgs cfg e w [alert cfg, Fetch (baseUrl @ queries)] p"
        by (simp add: sync_def)
      show ?thesis
        unfolding s
        using persist_events_sync [of cfg e w "[alert cfg, Fetch (baseUrl @ queries)]" p]
        by auto
    qed
  qed
  have saved: "jsons (this_cache (fst (snd (sync cfg e w)))) ''countries'' = Some p
     \<and> txts (this_cache (fst (snd (sync cfg e w)))) ''last-synced'' = Some (stringify (now_save e))"
    if a: "reply e = Response r \<and> body_json r = Some p" for r p
  proof -
    from a assms
    have s: "sync cfg e w = persist generateFlagImgs cfg e w [alert cfg, Fetch (baseUrl @ queries)] p"
      by (simp add: sync_def)
    show ?thesis unfolding s by (rule persist_cache)
  qed
  have same: "fst (sync cfg e w') = fst (sync cfg e w)
        \<and> snd (snd (sync cfg e w')) = snd (snd (sync cfg e w))" for w'
  proof (cases "reply e")
    case Rejected
    with assms show ?thesis by (simp add: sync_def)
  next
    case (Response r)
    show ?thesis
    proof (cases "body_json r")
      case None
      with Response assms show ?thesis by (simp add: sync_def)
    next
      case (Some p)
      with Response assms show ?thesis
        using persist_same [of generateFlagImgs cfg e w' "[alert cfg, Fetch (baseUrl @ queries)]" p w]
        by (simp add: sync_def)
    qed
  qed
  from fetched saved same show ?thesis by blast
qed

theorem sync_force_bypasses_freshness_witness:
  "force \<lparr>force = True, flagAscii = False\<rparr>
   \<and> \<not> shouldSync (synced_cache ''1700000000000'') 1700000000000
   \<and> Fetch (baseUrl @ queries)
       \<in> set (snd (snd (sync \<lparr>force = True, flagAscii = False\<rparr>
                 (sample_env good_reply echo_converter)
                 (empty_world\<lparr>this_cache := synced_cache ''1700000000000''\<rparr>))))
   \<and> jsons (this_cache (fst (snd (sync \<lparr>force = True, flagAscii = False\<rparr>
                 (sample_env good_reply echo_converter)
                 (empty_world\<lparr>this_cache := synced_cache ''1700000000000''\<rparr>)))))
         ''countries'' = Some (Countries [with_png])
   \<and> txts (this_cache (fst (snd (sync \<lparr>force = True, flagAscii = False\<rparr>
                 (sample_env good_reply echo_converter)
                 (empty_world\<lparr>this_cache := synced_cache ''1700000000000''\<rparr>)))))
         ''last-synced'' = Some ''1700000000001''"
proof -
  let ?cfg = "\<lparr>force = True, flagAscii = False\<rparr>"
  let ?e = "sample_env good_reply echo_converter"
  let ?w = "empty_world\<lparr>this_cache := synced_cache ''1700000000000''\<rparr>"
  have h: "force ?cfg" by simp
  have f: "\<not> shouldSync (synced_cache ''1700000000000'') 1700000000000"
    by (simp add: shouldSync_iff synced_cache_def exists_def readTxt_def falsy_def Number_def)
  have r: "reply ?e = Response \<lparr>ok = True, body_text = ''[...]'', body_json = Some (Countries [with_png])\<rparr>
        \<and> body_json \<lparr>ok = True, body_text = ''[...]'', body_json = Some (Countries [with_png])\<rparr>
            = Some (Countries [with_png])"
    by (simp add: sample_env_def good_reply_def)
  have n: "stringify (now_save ?e) = ''1700000000001''"
    by (simp add: sample_env_def stringify_now)
  from sync_force_bypasses_freshness [OF h, of ?e ?w] r n f show ?thesis
    by simp
qed

text \<open>
  C3: in a stale or forced \<open>sync\<close> whose reply reads as JSON, the calls made begin with
  the alert, the fetch, the save of the dataset under \<open>countries\<close> and the save of the
  time under \<open>last-synced\<close>; no call after them writes either of the two entries, and
  at the end the cache holds both, whatever the image converter did.
\<close>

theorem sync_persists_before_flag_art:
  assumes "shouldSync (this_cache w) (now_check e) \<or> force cfg"
      and "reply e = Response r" and "body_json r = Some p"
  shows "(\<exists>post. snd (snd (sync cfg e w)) =
            [alert cfg, Fetch (baseUrl @ queries), SaveJson ''countries'' p,
             SaveTxt ''last-synced'' (stringify (now_save e))] @ post
          \<and> (\<forall>x \<in> set post. \<not> writes_base x))
     \<and> jsons (this_cache (fst (snd (sync cfg e w)))) ''countries'' = Some p
     \<and> txts (this_cache (fst (snd (sync cfg e w)))) ''last-synced''
         = Some (stringify (now_save e))"
proof -
  have s: "sync cfg e w = persist generateFlagImgs cfg e w [alert cfg, Fetch (baseUrl @ queries)] p"
    using assms by (simp add: sync_def)
  show ?thesis
    unfolding s
    using persist_events_sync [of cfg e w "[alert cfg, Fetch (baseUrl @ queries)]" p]
      persist_cache [of generateFlagImgs cfg e w "[alert cfg, Fetch (baseUrl @ queries)]" p]
    by simp
qed

theorem sync_persists_before_flag_art_witness:
  "shouldSync (this_cache empty_world) (now_check (sample_env good_reply failing_converter))
   \<and> fst (sync \<lparr>force = False, flagAscii = True\<rparr> (sample_env good_reply failing_converter) empty_world)
       = Inl (ConverterFailed ''https://flagcdn.com/w320/fr.jpg'')
   \<and> jsons (this_cache (fst (snd (sync \<lparr>force = False, flagAscii = True\<rparr>
                 (sample_env good_reply failing_converter) empty_world))))
         ''countries'' = Some (Countries [with_png])
   \<and> txts (this_cache (fst (snd (sync \<lparr>force = False, flagAscii = True\<rparr>
                 (sample_env good_reply failing_converter) empty_world))))
         ''last-synced'' = Some ''1700000000001''"
proof -
  let ?cfg = "\<lparr>force = False, flagAscii = True\<rparr>"
  let ?e = "sample_env good_reply failing_converter"
  let ?r = "\<lparr>ok = True, body_text = ''[...]'', body_json = Some (Countries [with_png])\<rparr>"
  have h1: "shouldSync (this_cache empty_world) (now_check ?e) \<or> force ?cfg"
    by (simp add: shouldSync_iff empty_world_def exists_def)
  have h1': "shouldSync (this_cache empty_world) (now_check ?e)"
    by (simp add: shouldSync_iff empty_world_def exists_def)
  have h2: "reply ?e = Response ?r" by (simp add: sample_env_def good_reply_def)
  have h3: "body_json ?r = Some (Countries [with_png])" by simp
  have n: "stringify (now_save ?e) = ''1700000000001''"
    by (simp add: sample_env_def stringify_now)
  have res: "fst (sync ?cfg ?e empty_world) = Inl (ConverterFailed ''https://flagcdn.com/w320/fr.jpg'')"
    using h1' by (simp add: sync_def persist_def generateFlagImgs_def world_defs Let_def)
  from sync_persists_before_flag_art [OF h1 h2 h3] n h1' res show ?thesis
    by simp
qed

section \<open>A reply that is not a success\<close>

lemma sync_part000_not_ok:
  assumes "shouldSync_part000 (this_cache w) (now_check e) \<or> force cfg"
      and "reply e = Response r" and "\<not> ok r"
  shows "sync_part000 cfg e w =
           (Inl (Error (''API Error: '' @ body_text r)), w, [alert cfg, Fetch (baseUrl @ queries)])"
  using assms by (simp add: sync_part000_def)

text \<open>
  C4: \<open>sync\<close> of \<open>src/countries.ts\<close> on an empty cache, the reply having \<open>ok = false\<close> and
  the body \<open>{}\<close>: the body is saved under \<open>countries\<close>, the time under \<open>last-synced\<close>,
  and the call ends in a \<open>TypeError\<close>.  \<open>sync\<close> of the copy in \<open>unnamed/part_000\<close> raises
  the error with the body and leaves the cache as it was.
\<close>

theorem sync_not_ok_reply_is_persisted:
  "fst (sync \<lparr>force = False, flagAscii = False\<rparr> (sample_env error_reply echo_converter) empty_world)
     = Inl TypeError
   \<and> jsons (this_cache (fst (snd (sync \<lparr>force = False, flagAscii = False\<rparr>
                 (sample_env error_reply echo_converter) empty_world))))
         ''countries'' = Some (Other ''{}'')
   \<and> txts (this_cache (fst (snd (sync \<lparr>force = False, flagAscii = False\<rparr>
                 (sample_env error_reply echo_converter) empty_world))))
         ''last-synced'' = Some ''1700000000001''
   \<and> sync_part000 \<lparr>force = False, flagAscii = False\<rparr> (sample_env error_reply echo_converter) empty_world
     = (Inl (Error ''API Error: {}''), empty_world,
        [alert \<lparr>force = False, flagAscii = False\<rparr>, Fetch (baseUrl @ queries)])"
proof -
  let ?cfg = "\<lparr>force = False, flagAscii = False\<rparr>"
  let ?e = "sample_env error_reply echo_converter"
  have a: "shouldSync (this_cache empty_world) (now_check ?e)"
    by (simp add: shouldSync_iff empty_world_def exists_def)
  have b: "shouldSync_part000 (this_cache empty_world) (now_check ?e)"
    by (simp add: shouldSync_part000_iff empty_world_def exists_def)
  have s: "sync ?cfg ?e empty_world =
      persist generateFlagImgs ?cfg ?e empty_world [alert ?cfg, Fetch (baseUrl @ queries)] (Other ''{}'')"
    using a by (simp add: sync_def sample_env_def error_reply_def)
  have n: "stringify (now_save ?e) = ''1700000000001''"
    by (simp add: sample_env_def stringify_now)
  have 1: "fst (sync ?cfg ?e empty_world) = Inl TypeError"
    unfolding s by (simp add: persist_def set_names_def)
  have 2: "jsons (this_cache (fst (snd (sync ?cfg ?e empty_world)))) ''countries'' = Some (Other ''{}'')
     \<and> txts (this_cache (fst (snd (sync ?cfg ?e empty_world)))) ''last-synced'' = Some ''1700000000001''"
    unfolding s using persist_cache [of generateFlagImgs ?cfg ?e empty_world _ "Other ''{}''"] n
    by simp
  have 3: "sync_part000 ?cfg ?e empty_world
     = (Inl (Error ''API Error: {}''), empty_world, [alert ?cfg, Fetch (baseUrl @ queries)])"
    using b by (simp add: sync_part000_def sample_env_def error_reply_def)
  from 1 2 3 show ?thesis by blast
qed

theorem sync_not_ok_reply_is_persisted_witness:
  "fst (sync \<lparr>force = False, flagAscii = False\<rparr> (sample_env error_reply echo_converter) empty_world)
     = Inl TypeError"
  using sync_not_ok_reply_is_persisted by (rule conjunct1)

section \<open>Flag art for countries without a flag reference\<close>

lemma loop_part000_skips:
  "flags c = None \<Longrightarrow>
   generateFlagImgs_loop_part000 conv len title (c # rest) data index ev =
   generateFlagImgs_loop_part000 conv len title rest data index ev"
  by (simp add: or_else_def or_default_def falsy_def)

lemma loop_part000_no_flags:
  "\<forall>c \<in> set cs. flags c = None \<Longrightarrow>
   generateFlagImgs_loop_part000 conv len title cs data index ev = (Inr data, ev)"
  by (induction cs) (simp_all add: loop_part000_skips del: generateFlagImgs_loop_part000.simps(2))

lemma loop_no_flags_raises:
  "flags c = None \<Longrightarrow>
   generateFlagImgs_loop conv len title (c # rest) data index ev = (Inl TypeError, ev)"
  by simp

text \<open>
  C9: \<open>generateFlagImgs\<close> of \<open>src/countries.ts\<close> raises a \<open>TypeError\<close> at a country
  without \<open>flags\<close>, and at one that has only the \<open>svg\<close> reference; the copy in
  \<open>unnamed/part_000\<close> skips the first and takes the \<open>svg\<close> reference of the second.
\<close>

theorem generateFlagImgs_no_flags_raises:
  "generateFlagImgs echo_converter [bare ''Atlantis'', with_png] (Some logTitle) = (Inl TypeError, [])
   \<and> generateFlagImgs echo_converter [svg_only] (Some logTitle) = (Inl TypeError, [])
   \<and> generateFlagImgs_part000 echo_converter [bare ''Atlantis'', with_png] (Some logTitle)
       = (Inr [\<lparr>countryName = ''France'', flagString = [''https://flagcdn.com/w320/fr.png'']\<rparr>],
          [GetImageStrings ''https://flagcdn.com/w320/fr.png'',
           Progress 1 2 (Some logTitle) ''Generating a flag for France''])
   \<and> generateFlagImgs_part000 echo_converter [svg_only] (Some logTitle)
       = (Inr [\<lparr>countryName = ''France'', flagString = [''https://flagcdn.com/fr.svg'']\<rparr>],
          [GetImageStrings ''https://flagcdn.com/fr.svg'',
           Progress 1 1 (Some logTitle) ''Generating a flag for France''])"
  by (simp add: generateFlagImgs_def generateFlagImgs_part000_def world_defs svg_only_def
        bare_def or_else_def or_default_def falsy_def Let_def numeral_2_eq_2)

theorem generateFlagImgs_no_flags_raises_witness:
  "generateFlagImgs echo_converter [bare ''Atlantis'', with_png] (Some logTitle) = (Inl TypeError, [])"
  using generateFlagImgs_no_flags_raises by (rule conjunct1)

section \<open>Display of absent fields\<close>

lemma print_part000_markers:
  assumes "find_country list name = Inr c"
  shows "\<exists>r. fst (print_part000 fmt list fls name) = Inr ()
     \<and> logged (snd (print_part000 fmt list fls name)) = Some r
     \<and> (population c = None \<longrightarrow> p_population r = Some ''N/A'')
     \<and> (region c = None \<longrightarrow> p_region r = Some ''N/A'')
     \<and> (subregion c = None \<longrightarrow> p_subregion r = Some ''N/A'')
     \<and> (latlng c = None \<longrightarrow> p_latlng r = Some ''N/A'')
     \<and> (timezones c = None \<longrightarrow> p_timezones r = Some ''N/A'')
     \<and> (tld c = None \<longrightarrow> p_tld r = Some ''N/A'')
     \<and> (capital c = None \<or> capital c = Some [] \<longrightarrow> p_capital r = Some ''N/A'')
     \<and> (List.find (\<lambda>i. countryName i = common c) fls = None
          \<longrightarrow> p_flag r = Some ''Flag: Not Available'')"
  using assms
  by (auto simp: print_part000_def Let_def nullish_default_def split: option.splits)

text \<open>
  C7: \<open>print\<close> of \<open>src/countries.ts\<close> on a country without \<open>population\<close> raises a
  \<open>TypeError\<close> and logs no record; the copy in \<open>unnamed/part_000\<close> logs the record with
  \<open>N/A\<close> for the population.
\<close>

theorem print_absent_population_raises:
  "print stringify Map.empty [no_population] [] ''france'' = (Inl TypeError, [])
   \<and> fst (print_part000 stringify [no_population] [] ''france'') = Inr ()
   \<and> map_option p_population (logged (snd (print_part000 stringify [no_population] [] ''france'')))
       = Some (Some ''N/A'')"
  by (simp add: print_def print_part000_def find_country_def no_population_def eval_defs
        nullish_default_def Let_def)

theorem print_absent_population_raises_witness:
  "print stringify Map.empty [no_population] [] ''france'' = (Inl TypeError, [])"
  using print_absent_population_raises by (rule conjunct1)

end
